theory Spec2Isabelle
  imports Main "HOL-Library.Multiset"
begin

section \<open>Application Specific Passwords: the handlers of lib/api/asps.js\<close>

text \<open>
  The module registers three request handlers on the server: list
  (\<^verbatim>\<open>server.get('/users/:user/asps')\<close>), create (\<^verbatim>\<open>server.post('/users/:user/asps')\<close>)
  and delete (\<^verbatim>\<open>server.del('/users/:user/asps/:asp')\<close>). Each handler is embedded
  as a function from the collaborators, the data store and the request
  parameters to the object handed to \<^verbatim>\<open>res.json\<close>, the data store afterwards, and
  the collaborator calls made, in order. Every handler ends with \<^verbatim>\<open>return next()\<close>
  after exactly one \<^verbatim>\<open>res.json\<close>, so an outcome carries one response.
\<close>

subsection \<open>JavaScript values\<close>

text \<open>
  Objects are association lists in property order. Numbers are the integers
  (ports, 0 and 1 are all the code handles). Strings are lists of \<^typ>\<open>char\<close>.
  An ObjectID is the 96 bit number its 24 hexadecimal digits denote: MongoDB
  orders ObjectIDs byte by byte, which is the order of these numbers.
\<close>

type_synonym objectid = nat

datatype jsval =
    JUndefined
  | JNull
  | JBool bool
  | JNumber int
  | JString string
  | JObjectID objectid
  | JDate nat
  | JArray "jsval list"
  | JObject "(string \<times> jsval) list"

type_synonym jsobject = "(string \<times> jsval) list"

text \<open>\<^verbatim>\<open>!!v\<close>: undefined, null, false, 0 and the empty string are falsy.\<close>

fun truthy :: "jsval \<Rightarrow> bool" where
  "truthy JUndefined = False"
| "truthy JNull = False"
| "truthy (JBool b) = b"
| "truthy (JNumber n) = (n \<noteq> 0)"
| "truthy (JString s) = (s \<noteq> [])"
| "truthy (JObjectID i) = True"
| "truthy (JDate d) = True"
| "truthy (JArray xs) = True"
| "truthy (JObject fs) = True"

text \<open>\<^verbatim>\<open>a || b\<close>\<close>

definition js_or :: "jsval \<Rightarrow> jsval \<Rightarrow> jsval" where
  "js_or a b = (if truthy a then a else b)"

text \<open>\<^verbatim>\<open>o.k\<close> on an object: the property's value, undefined when there is none.\<close>

definition get_field :: "jsobject \<Rightarrow> string \<Rightarrow> jsval" where
  "get_field fs k = (case map_of fs k of None \<Rightarrow> JUndefined | Some v \<Rightarrow> v)"

text \<open>\<^verbatim>\<open>o.k = v\<close>: an existing property keeps its place, a new one is added last.\<close>

fun set_field :: "jsobject \<Rightarrow> string \<Rightarrow> jsval \<Rightarrow> jsobject" where
  "set_field [] k v = [(k, v)]"
| "set_field ((k', v') # fs) k v =
     (if k' = k then (k, v) # fs else (k', v') # set_field fs k v)"

text \<open>The property names of an object literal, and of any other value none.\<close>

fun keys_of :: "jsval \<Rightarrow> string list" where
  "keys_of (JObject fs) = map fst fs"
| "keys_of v = []"

text \<open>An \<^verbatim>\<open>Error\<close> as the callbacks receive it; the handlers read \<^verbatim>\<open>message\<close> only.\<close>

record js_error =
  message :: string
  code :: "string option"

subsection \<open>String operations of the create handler\<close>

text \<open>\<^verbatim>\<open>s.split(',')\<close>: the empty string gives one empty token.\<close>

fun split_comma :: "string \<Rightarrow> string list" where
  "split_comma [] = [[]]"
| "split_comma (c # cs) =
     (if c = CHR '','' then [] # split_comma cs
      else (case split_comma cs of [] \<Rightarrow> [[c]] | t # ts \<Rightarrow> (c # t) # ts))"

text \<open>
  \<^verbatim>\<open>s.trim()\<close> removes white space and line terminators at both ends. A
  \<^typ>\<open>char\<close> is a code unit below U+0100; of the characters \<^verbatim>\<open>trim\<close> removes these
  are tab, line feed, vertical tab, form feed, carriage return, space and the
  no-break space U+00A0.
\<close>

definition is_space :: "char \<Rightarrow> bool" where
  "is_space c =
     (c \<in> set [CHR 0x09, CHR 0x0A, CHR 0x0B, CHR 0x0C, CHR 0x0D, CHR 0x20, CHR 0xA0])"

definition trim :: "string \<Rightarrow> string" where
  "trim s = rev (dropWhile is_space (rev (dropWhile is_space s)))"

text \<open>
  Lines 230-235: a \<^verbatim>\<open>scopes\<close> parameter that is a string is replaced, before
  validation, by its comma separated tokens, trimmed, the empty ones dropped.
\<close>

definition split_scopes :: "string \<Rightarrow> string list" where
  "split_scopes s = filter (\<lambda>scope. scope \<noteq> []) (map trim (split_comma s))"

definition presplit :: "jsobject \<Rightarrow> jsobject" where
  "presplit params =
     (case get_field params ''scopes'' of
        JString s \<Rightarrow> set_field params ''scopes'' (JArray (map JString (split_scopes s)))
      | _ \<Rightarrow> params)"

subsection \<open>Documents, validated values and settings\<close>

text \<open>
  \<^verbatim>\<open>new ObjectID(hex)\<close> on the 24 hexadecimal digits the validation schema
  lets through (\<^verbatim>\<open>Joi.string().hex().lowercase().length(24)\<close>).
\<close>

definition hex_digit :: "char \<Rightarrow> nat" where
  "hex_digit c =
     (let n = (of_char c :: nat)
      in if 48 \<le> n \<and> n \<le> 57 then n - 48
         else if 97 \<le> n \<and> n \<le> 102 then n - 87
         else if 65 \<le> n \<and> n \<le> 70 then n - 55
         else 0)"

definition ObjectID :: "string \<Rightarrow> objectid" where
  "ObjectID hex = foldl (\<lambda>acc c. 16 * acc + hex_digit c) 0 hex"

text \<open>
  \<^verbatim>\<open>result.value\<close> of a successful validation of a create request (schema of
  lines 202-228): \<^verbatim>\<open>user\<close> and \<^verbatim>\<open>description\<close> are required strings, \<^verbatim>\<open>scopes\<close> is an
  array of strings or absent (the schema gives it no default),
  \<^verbatim>\<open>generateMobileconfig\<close> is a boolean (default false), \<^verbatim>\<open>sess\<close> and \<^verbatim>\<open>ip\<close> are
  optional strings.
\<close>

record create_values =
  value_user :: string
  value_description :: string
  value_scopes :: "string list option"
  value_generateMobileconfig :: bool
  value_sess :: "string option"
  value_ip :: "string option"

text \<open>\<^verbatim>\<open>result.value\<close> of a delete request (schema of lines 398-414).\<close>

record delete_values =
  del_user :: string
  del_asp :: string
  del_sess :: "string option"
  del_ip :: "string option"

text \<open>A user document under the projection \<^verbatim>\<open>{username, name, address}\<close>.\<close>

record user_doc =
  username :: string
  name :: string
  address :: string

text \<open>
  A document of the \<^verbatim>\<open>asps\<close> collection. The list handler reads \<^verbatim>\<open>_id\<close>,
  \<^verbatim>\<open>description\<close>, \<^verbatim>\<open>scopes\<close>, \<^verbatim>\<open>used\<close>, \<^verbatim>\<open>authEvent\<close> and \<^verbatim>\<open>created\<close>; the query
  filters on \<^verbatim>\<open>user\<close>. \<open>asp_secret\<close> stands for the credential material the
  Credential Service keeps in the document.
\<close>

record asp_doc =
  asp_id :: objectid
  asp_user :: objectid
  asp_description :: string
  asp_scopes :: "string list"
  asp_used :: jsval
  asp_authEvent :: jsval
  asp_created :: jsval
  asp_secret :: string

text \<open>What \<^verbatim>\<open>userHandler.generateASP\<close> hands to its callback: \<^verbatim>\<open>{id, password}\<close>.\<close>

record asp_result =
  result_id :: objectid
  result_password :: string

text \<open>
  The settings the create handler reads: \<^verbatim>\<open>config.imap\<close> and \<^verbatim>\<open>config.smtp\<close>
  (\<^verbatim>\<open>port\<close>, \<^verbatim>\<open>setup.hostname\<close>, \<^verbatim>\<open>setup.port\<close>, \<^verbatim>\<open>setup.secure\<close>),
  \<^verbatim>\<open>config.api.mobileconfig\<close> (the profile template, a table of strings with
  each key once, or absent) and \<^verbatim>\<open>certs\<close>, the signing keys loaded from
  \<^verbatim>\<open>../certs\<close>.
\<close>

record server_config =
  port :: jsval
  setup_hostname :: jsval
  setup_port :: jsval
  setup_secure :: jsval

record settings =
  api_mobileconfig :: "(string \<times> string) list option"
  imap :: server_config
  smtp :: server_config
  certs :: jsval

subsection \<open>Collaborators\<close>

text \<open>
  The calls a handler makes to the user collection, the asps collection, the
  Credential Service (\<^verbatim>\<open>userHandler\<close>) and the Profile Signer (\<^verbatim>\<open>mobileconfig\<close>).
\<close>

datatype call =
    UsersFindOne objectid
  | AspsFind objectid
  | GenerateASP objectid create_values
  | GetSignedEmailConfig jsval
  | DeleteASP objectid objectid delete_values

text \<open>
  The collaborators are parameters of the handlers. A callback's \<^verbatim>\<open>err\<close> is
  \<open>Inl\<close>. The two store reads leave the store as it is; \<^verbatim>\<open>generateASP\<close> and
  \<^verbatim>\<open>deleteASP\<close> return the store they leave behind.
  \<^item> \<open>joi_list\<close>, \<open>joi_create\<close>, \<open>joi_delete\<close>: \<^verbatim>\<open>Joi.validate(req.params, schema, ...)\<close>
    with the schema of the handler; \<open>Inl\<close> is \<^verbatim>\<open>result.error\<close>, \<open>Inr\<close> is
    \<^verbatim>\<open>result.value\<close>.
  \<^item> \<open>users_findOne\<close>: \<^verbatim>\<open>db.users.collection('users').findOne({_id: user}, ...)\<close>;
    \<open>Inr None\<close> when no document matches.
  \<^item> \<open>asps_find\<close>: \<^verbatim>\<open>db.users.collection('asps').find({user}).sort({_id: 1}).toArray\<close>;
    \<open>Inr None\<close> is the falsy \<^verbatim>\<open>asps\<close> line 126 allows for.
  \<^item> \<open>getSignedEmailConfig\<close>: the Profile Signer; \<open>Inr\<close> is the buffer, a list of
    bytes.
\<close>

record 'db env =
  joi_list :: "jsobject \<Rightarrow> js_error + string"
  joi_create :: "jsobject \<Rightarrow> js_error + create_values"
  joi_delete :: "jsobject \<Rightarrow> js_error + delete_values"
  users_findOne :: "'db \<Rightarrow> objectid \<Rightarrow> js_error + user_doc option"
  asps_find :: "'db \<Rightarrow> objectid \<Rightarrow> js_error + asp_doc list option"
  generateASP :: "objectid \<Rightarrow> create_values \<Rightarrow> 'db \<Rightarrow> (js_error + asp_result) \<times> 'db"
  deleteASP :: "objectid \<Rightarrow> objectid \<Rightarrow> delete_values \<Rightarrow> 'db \<Rightarrow> js_error option \<times> 'db"
  getSignedEmailConfig :: "jsval \<Rightarrow> js_error + string"

text \<open>What a handler did: the object given to \<^verbatim>\<open>res.json\<close>, the store, the calls.\<close>

record 'db outcome =
  response :: jsval
  store :: "'db"
  calls :: "call list"

subsection \<open>The profile options (lines 310-340)\<close>

text \<open>
  \<^verbatim>\<open>value.replace(/\{email\}/g, userData.address)\<close>. The second argument is a
  replacement pattern: in it \<^verbatim>\<open>$$\<close> stands for a dollar sign, \<^verbatim>\<open>$&\<close> for the
  match, \<^verbatim>\<open>$`\<close> for the text before the match and \<^verbatim>\<open>$'\<close> for the text after
  it; the expression has no groups, so every other \<^verbatim>\<open>$\<close> stands for itself.
\<close>

fun get_substitution :: "string \<Rightarrow> string \<Rightarrow> string \<Rightarrow> string \<Rightarrow> string" where
  "get_substitution matched left right [] = []"
| "get_substitution matched left right [c] = [c]"
| "get_substitution matched left right (c # d # r) =
     (if c = CHR ''$'' \<and> d = CHR ''$'' then CHR ''$'' # get_substitution matched left right r
      else if c = CHR ''$'' \<and> d = CHR ''&'' then matched @ get_substitution matched left right r
      else if c = CHR ''$'' \<and> d = CHR 0x60 then left @ get_substitution matched left right r
      else if c = CHR ''$'' \<and> d = CHR 0x27 then right @ get_substitution matched left right r
      else c # get_substitution matched left right (d # r))"

function replace_email_from :: "string \<Rightarrow> string \<Rightarrow> string \<Rightarrow> string" where
  "replace_email_from replacement left rest =
     (if take 7 rest = ''{email}''
      then get_substitution ''{email}'' left (drop 7 rest) replacement
           @ replace_email_from replacement (left @ ''{email}'') (drop 7 rest)
      else (case rest of
              [] \<Rightarrow> []
            | c # cs \<Rightarrow> c # replace_email_from replacement (left @ [c]) cs))"
  by pat_completeness auto
termination
proof (relation "measure (\<lambda>(replacement, left, rest). length rest)")
  show "wf (measure (\<lambda>(replacement, left, rest). length rest))"
    by simp
next
  fix replacement left rest :: string
  assume "take 7 rest = ''{email}''"
  then have "length (take 7 rest) = 7"
    by simp
  then have "7 \<le> length rest"
    by simp
  then show "((replacement, left @ ''{email}'', drop 7 rest), (replacement, left, rest))
               \<in> measure (\<lambda>(replacement, left, rest). length rest)"
    by simp
next
  fix replacement left rest :: string and c cs
  assume "rest = c # cs"
  then show "((replacement, left @ [c], cs), (replacement, left, rest))
               \<in> measure (\<lambda>(replacement, left, rest). length rest)"
    by simp
qed

definition replace_email :: "string \<Rightarrow> string \<Rightarrow> string" where
  "replace_email s replacement = replace_email_from replacement [] s"

text \<open>
  Lines 310-316: \<^verbatim>\<open>profileOpts\<close> has, for every key of the template, the
  template's string with \<^verbatim>\<open>{email}\<close> replaced and the result trimmed; an absent
  template gives no keys.
\<close>

definition profileOpts :: "settings \<Rightarrow> user_doc \<Rightarrow> (string \<times> string) list" where
  "profileOpts cfg userData =
     map (\<lambda>(key, v). (key, trim (replace_email v (address userData))))
       (case api_mobileconfig cfg of None \<Rightarrow> [] | Some template \<Rightarrow> template)"

text \<open>\<^verbatim>\<open>profileOpts.k\<close>, and the same as an operand of \<^verbatim>\<open>+\<close> with a string.\<close>

definition opt_field :: "(string \<times> string) list \<Rightarrow> string \<Rightarrow> jsval" where
  "opt_field opts k = (case map_of opts k of None \<Rightarrow> JUndefined | Some s \<Rightarrow> JString s)"

definition opt_string :: "(string \<times> string) list \<Rightarrow> string \<Rightarrow> string" where
  "opt_string opts k = (case map_of opts k of None \<Rightarrow> ''undefined'' | Some s \<Rightarrow> s)"

text \<open>Lines 318-340: the object given to the Profile Signer.\<close>

definition profile_options :: "settings \<Rightarrow> string \<Rightarrow> user_doc \<Rightarrow> asp_result \<Rightarrow> jsval" where
  "profile_options cfg description userData result =
     (let opts = profileOpts cfg userData
      in JObject
        [(''displayName'', js_or (JString description) (opt_field opts ''displayName'')),
         (''displayDescription'', opt_field opts ''displayDescription''),
         (''accountDescription'', opt_field opts ''accountDescription''),
         (''emailAddress'', JString (address userData)),
         (''emailAccountName'', JString (name userData)),
         (''identifier'', JString (opt_string opts ''identifier'' @ ''.'' @ username userData)),
         (''imap'', JObject
            [(''hostname'', setup_hostname (imap cfg)),
             (''port'', js_or (setup_port (imap cfg)) (port (imap cfg))),
             (''secure'', setup_secure (imap cfg)),
             (''username'', JString (username userData)),
             (''password'', JString (result_password result))]),
         (''smtp'', JObject
            [(''hostname'', setup_hostname (smtp cfg)),
             (''port'', js_or (setup_port (smtp cfg)) (port (smtp cfg))),
             (''secure'', JBool True),
             (''username'', JString (username userData)),
             (''password'', JBool False)]),
         (''keys'', certs cfg)])"

subsection \<open>Create (lines 199-361)\<close>

text \<open>\<^verbatim>\<open>data.toString('base64')\<close> on a buffer: three bytes give four digits.\<close>

definition base64_digit :: "nat \<Rightarrow> char" where
  "base64_digit n =
     ''ABCDEFGHIJKLMNOPQRSTUVWXYZabcdefghijklmnopqrstuvwxyz0123456789+/'' ! (n mod 64)"

fun base64 :: "string \<Rightarrow> string" where
  "base64 [] = []"
| "base64 [a] =
     (let n = of_char a * 65536
      in [base64_digit (n div 262144), base64_digit (n div 4096), CHR ''='', CHR ''=''])"
| "base64 [a, b] =
     (let n = of_char a * 65536 + of_char b * 256
      in [base64_digit (n div 262144), base64_digit (n div 4096), base64_digit (n div 64),
          CHR ''=''])"
| "base64 (a # b # c # rest) =
     (let n = of_char a * 65536 + of_char b * 256 + of_char c
      in [base64_digit (n div 262144), base64_digit (n div 4096), base64_digit (n div 64),
          base64_digit n] @ base64 rest)"

text \<open>
  Lines 252 and 255-257: \<^verbatim>\<open>scopes = result.value.scopes || ['*']\<close> (an array,
  empty or not, is truthy), then \<^verbatim>\<open>['*']\<close> when \<^verbatim>\<open>scopes\<close> includes \<^verbatim>\<open>'*'\<close>.
\<close>

definition create_scopes :: "create_values \<Rightarrow> string list" where
  "create_scopes val =
     (let scopes = (case value_scopes val of None \<Rightarrow> [''*''] | Some requested \<Rightarrow> requested)
      in if ''*'' \<in> set scopes then [''*''] else scopes)"

text \<open>Line 259: the condition under which a profile is refused.\<close>

definition profile_conflict :: "bool \<Rightarrow> string list \<Rightarrow> bool" where
  "profile_conflict generateMobileconfig scopes =
     (generateMobileconfig \<and> ''*'' \<notin> set scopes
      \<and> (''imap'' \<notin> set scopes \<or> ''smtp'' \<notin> set scopes))"

definition error_only :: "string \<Rightarrow> jsval" where
  "error_only msg = JObject [(''error'', JString msg)]"

definition error_code :: "string \<Rightarrow> string \<Rightarrow> jsval" where
  "error_code msg c = JObject [(''error'', JString msg), (''code'', JString c)]"

definition post_asps :: "'db env \<Rightarrow> settings \<Rightarrow> 'db \<Rightarrow> jsobject \<Rightarrow> 'db outcome" where
  "post_asps c cfg db params =
     (case joi_create c (presplit params) of
        Inl error \<Rightarrow>
          \<lparr>response = error_code (message error) ''InputValidationError'', store = db, calls = []\<rparr>
      | Inr val \<Rightarrow>
          let user = ObjectID (value_user val);
              generateMobileconfig = value_generateMobileconfig val;
              scopes = create_scopes val;
              description = value_description val
          in
          if profile_conflict generateMobileconfig scopes
          then \<lparr>response = error_only ''Profile file requires imap and smtp scopes'',
                 store = db, calls = []\<rparr>
          else
            (case users_findOne c db user of
               Inl err \<Rightarrow>
                 \<lparr>response = error_code (''MongoDB Error: '' @ message err) ''InternalDatabaseError'',
                   store = db, calls = [UsersFindOne user]\<rparr>
             | Inr None \<Rightarrow>
                 \<lparr>response = error_code ''This user does not exist'' ''UserNotFound'',
                   store = db, calls = [UsersFindOne user]\<rparr>
             | Inr (Some userData) \<Rightarrow>
                 (case generateASP c user val db of
                    (Inl err, db') \<Rightarrow>
                      \<lparr>response = error_only (message err), store = db',
                        calls = [UsersFindOne user, GenerateASP user val]\<rparr>
                  | (Inr result, db') \<Rightarrow>
                      if \<not> generateMobileconfig
                      then \<lparr>response = JObject
                               [(''success'', JBool True),
                                (''id'', JObjectID (result_id result)),
                                (''password'', JString (result_password result))],
                             store = db',
                             calls = [UsersFindOne user, GenerateASP user val]\<rparr>
                      else
                        let options = profile_options cfg description userData result
                        in (case getSignedEmailConfig c options of
                              Inl err \<Rightarrow>
                                \<lparr>response = error_only (message err), store = db',
                                  calls = [UsersFindOne user, GenerateASP user val,
                                           GetSignedEmailConfig options]\<rparr>
                            | Inr data \<Rightarrow>
                                \<lparr>response = JObject
                                    [(''success'', JBool True),
                                     (''id'', JObjectID (result_id result)),
                                     (''password'', JString (result_password result)),
                                     (''mobileconfig'', JString (base64 data))],
                                  store = db',
                                  calls = [UsersFindOne user, GenerateASP user val,
                                           GetSignedEmailConfig options]\<rparr>))))"

subsection \<open>List (lines 60-149)\<close>

text \<open>Lines 133-142: the summary of one document.\<close>

definition asp_summary :: "asp_doc \<Rightarrow> jsval" where
  "asp_summary asp =
     JObject
       [(''id'', JObjectID (asp_id asp)),
        (''description'', JString (asp_description asp)),
        (''scopes'', JArray (map JString (asp_scopes asp))),
        (''lastUse'', JObject
           [(''time'', js_or (asp_used asp) (JBool False)),
            (''event'', js_or (asp_authEvent asp) (JBool False))]),
        (''created'', asp_created asp)]"

definition get_asps :: "'db env \<Rightarrow> 'db \<Rightarrow> jsobject \<Rightarrow> 'db outcome" where
  "get_asps c db params =
     (case joi_list c params of
        Inl error \<Rightarrow>
          \<lparr>response = error_code (message error) ''InputValidationError'', store = db, calls = []\<rparr>
      | Inr hex \<Rightarrow>
          let user = ObjectID hex
          in (case users_findOne c db user of
                Inl err \<Rightarrow>
                  \<lparr>response = error_code (''MongoDB Error: '' @ message err) ''InternalDatabaseError'',
                    store = db, calls = [UsersFindOne user]\<rparr>
              | Inr None \<Rightarrow>
                  \<lparr>response = error_code ''This user does not exist'' ''UserNotFound'',
                    store = db, calls = [UsersFindOne user]\<rparr>
              | Inr (Some userData) \<Rightarrow>
                  (case asps_find c db user of
                     Inl err \<Rightarrow>
                       \<lparr>response = error_code (''MongoDB Error: '' @ message err) ''InternalDatabaseError'',
                         store = db, calls = [UsersFindOne user, AspsFind user]\<rparr>
                   | Inr found \<Rightarrow>
                       let asps = (case found of None \<Rightarrow> [] | Some docs \<Rightarrow> docs)
                       in \<lparr>response = JObject
                               [(''success'', JBool True),
                                (''results'', JArray (map asp_summary asps))],
                            store = db, calls = [UsersFindOne user, AspsFind user]\<rparr>)))"

subsection \<open>Delete (lines 395-444)\<close>

definition del_asps :: "'db env \<Rightarrow> 'db \<Rightarrow> jsobject \<Rightarrow> 'db outcome" where
  "del_asps c db params =
     (case joi_delete c params of
        Inl error \<Rightarrow>
          \<lparr>response = error_code (message error) ''InputValidationError'', store = db, calls = []\<rparr>
      | Inr val \<Rightarrow>
          let user = ObjectID (del_user val);
              asp = ObjectID (del_asp val)
          in (case deleteASP c user asp val db of
                (Some err, db') \<Rightarrow>
                  \<lparr>response = error_only (message err), store = db',
                    calls = [DeleteASP user asp val]\<rparr>
              | (None, db') \<Rightarrow>
                  \<lparr>response = JObject [(''success'', JBool True)], store = db',
                    calls = [DeleteASP user asp val]\<rparr>))"

subsection \<open>The validation schemas\<close>

text \<open>
  The three schemas as Joi reads them with \<^verbatim>\<open>convert: true\<close>: a value of the
  wrong type, a missing required key and a key the schema does not list are
  violations; \<^verbatim>\<open>lowercase()\<close> and \<^verbatim>\<open>trim()\<close> convert the string before the other
  rules see it; a string may not be empty; \<^verbatim>\<open>required()\<close> on the item of an
  array asks for at least one such item; the boolean accepts the listed truthy
  and falsy values in any letter case. \<open>None\<close> is a violation. Lengths are
  counted in \<^typ>\<open>char\<close>s. The text of Joi's message is not in the source;
  \<open>validation_error\<close> stands for it.
  \<open>SCOPES\<close> is \<^verbatim>\<open>consts.SCOPES\<close> and \<open>is_ip\<close> is the test behind \<^verbatim>\<open>Joi.string().ip\<close>;
  both are parameters.
\<close>

definition to_lower :: "char \<Rightarrow> char" where
  "to_lower c =
     (let n = (of_char c :: nat) in if 65 \<le> n \<and> n \<le> 90 then char_of (n + 32) else c)"

definition is_hex :: "char \<Rightarrow> bool" where
  "is_hex c =
     (let n = (of_char c :: nat)
      in (48 \<le> n \<and> n \<le> 57) \<or> (97 \<le> n \<and> n \<le> 102) \<or> (65 \<le> n \<and> n \<le> 70))"

definition validation_error :: js_error where
  "validation_error = \<lparr>message = ''ValidationError'', code = None\<rparr>"

text \<open>\<^verbatim>\<open>Joi.string().hex().lowercase().length(24).required()\<close>\<close>

fun joi_hex24 :: "jsval \<Rightarrow> string option" where
  "joi_hex24 (JString s) =
     (let l = map to_lower s
      in if list_all is_hex l \<and> length l = 24 then Some l else None)"
| "joi_hex24 v = None"

text \<open>\<^verbatim>\<open>Joi.string().trim().max(255).required()\<close>\<close>

fun joi_description :: "jsval \<Rightarrow> string option" where
  "joi_description (JString s) =
     (let t = trim s in if t \<noteq> [] \<and> length t \<le> 255 then Some t else None)"
| "joi_description v = None"

text \<open>\<^verbatim>\<open>Joi.string().valid(...consts.SCOPES, '*').required()\<close>, the item of the array\<close>

fun joi_scope :: "string list \<Rightarrow> jsval \<Rightarrow> string option" where
  "joi_scope SCOPES (JString s) = (if s \<in> set (SCOPES @ [''*'']) then Some s else None)"
| "joi_scope SCOPES v = None"

text \<open>\<^verbatim>\<open>Joi.array().items(...).unique()\<close>, optional\<close>

fun joi_scopes :: "string list \<Rightarrow> jsval \<Rightarrow> string list option option" where
  "joi_scopes SCOPES JUndefined = Some None"
| "joi_scopes SCOPES (JArray xs) =
     (let items = map (joi_scope SCOPES) xs
      in if xs \<noteq> [] \<and> list_all (\<lambda>i. i \<noteq> None) items \<and> distinct items
         then Some (Some (map the items)) else None)"
| "joi_scopes SCOPES v = None"

text \<open>
  \<^verbatim>\<open>Joi.boolean().truthy(['Y', 'true', 'yes', 'on', 1])
     .falsy(['N', 'false', 'no', 'off', 0, '']).default(false)\<close>
\<close>

fun joi_boolean :: "jsval \<Rightarrow> bool option" where
  "joi_boolean JUndefined = Some False"
| "joi_boolean (JBool b) = Some b"
| "joi_boolean (JNumber n) = (if n = 1 then Some True else if n = 0 then Some False else None)"
| "joi_boolean (JString s) =
     (let l = map to_lower s
      in if l \<in> set [''y'', ''true'', ''yes'', ''on''] then Some True
         else if l \<in> set [''n'', ''false'', ''no'', ''off'', []] then Some False
         else None)"
| "joi_boolean v = None"

text \<open>\<^verbatim>\<open>Joi.string().max(255)\<close>, optional\<close>

fun joi_sess :: "jsval \<Rightarrow> string option option" where
  "joi_sess JUndefined = Some None"
| "joi_sess (JString s) = (if s \<noteq> [] \<and> length s \<le> 255 then Some (Some s) else None)"
| "joi_sess v = None"

text \<open>\<^verbatim>\<open>Joi.string().ip({version: ['ipv4', 'ipv6'], cidr: 'forbidden'})\<close>, optional\<close>

fun joi_ip :: "(string \<Rightarrow> bool) \<Rightarrow> jsval \<Rightarrow> string option option" where
  "joi_ip is_ip JUndefined = Some None"
| "joi_ip is_ip (JString s) = (if is_ip s then Some (Some s) else None)"
| "joi_ip is_ip v = None"

definition only_keys :: "string list \<Rightarrow> jsobject \<Rightarrow> bool" where
  "only_keys allowed params = list_all (\<lambda>k. k \<in> set allowed) (map fst params)"

definition list_schema :: "jsobject \<Rightarrow> js_error + string" where
  "list_schema params =
     (case joi_hex24 (get_field params ''user'') of
        Some u \<Rightarrow> if only_keys [''user''] params then Inr u else Inl validation_error
      | None \<Rightarrow> Inl validation_error)"

definition create_schema :: "string list \<Rightarrow> (string \<Rightarrow> bool) \<Rightarrow> jsobject \<Rightarrow> js_error + create_values" where
  "create_schema SCOPES is_ip params =
     (case (joi_hex24 (get_field params ''user''),
            joi_description (get_field params ''description''),
            joi_scopes SCOPES (get_field params ''scopes''),
            joi_boolean (get_field params ''generateMobileconfig''),
            joi_sess (get_field params ''sess''),
            joi_ip is_ip (get_field params ''ip'')) of
        (Some u, Some d, Some s, Some g, Some se, Some i) \<Rightarrow>
          if only_keys [''user'', ''description'', ''scopes'', ''generateMobileconfig'',
                        ''sess'', ''ip''] params
          then Inr \<lparr>value_user = u, value_description = d, value_scopes = s,
                     value_generateMobileconfig = g, value_sess = se, value_ip = i\<rparr>
          else Inl validation_error
      | _ \<Rightarrow> Inl validation_error)"

definition delete_schema :: "(string \<Rightarrow> bool) \<Rightarrow> jsobject \<Rightarrow> js_error + delete_values" where
  "delete_schema is_ip params =
     (case (joi_hex24 (get_field params ''user''),
            joi_hex24 (get_field params ''asp''),
            joi_sess (get_field params ''sess''),
            joi_ip is_ip (get_field params ''ip'')) of
        (Some u, Some a, Some se, Some i) \<Rightarrow>
          if only_keys [''user'', ''asp'', ''sess'', ''ip''] params
          then Inr \<lparr>del_user = u, del_asp = a, del_sess = se, del_ip = i\<rparr>
          else Inl validation_error
      | _ \<Rightarrow> Inl validation_error)"

subsection \<open>A store in memory and its collaborators\<close>

text \<open>
  The two collections the handlers query, the next identifier the Credential
  Service assigns and the time it stamps on a new document.
\<close>

record database =
  users :: "(objectid \<times> user_doc) list"
  asps :: "asp_doc list"
  next_id :: objectid
  now :: nat

text \<open>Lines 86-94 and 266-276: \<^verbatim>\<open>findOne({_id: user}, ...)\<close> on the users.\<close>

definition mem_users_findOne :: "database \<Rightarrow> objectid \<Rightarrow> js_error + user_doc option" where
  "mem_users_findOne db user = Inr (map_of (users db) user)"

text \<open>
  Lines 111-117: \<^verbatim>\<open>find({user}).sort({_id: 1})\<close> keeps the documents of the user
  and orders them by ascending \<^verbatim>\<open>_id\<close>.
\<close>

definition find_user_sorted :: "asp_doc list \<Rightarrow> objectid \<Rightarrow> asp_doc list" where
  "find_user_sorted docs user = sort_key asp_id (filter (\<lambda>d. asp_user d = user) docs)"

definition mem_asps_find :: "database \<Rightarrow> objectid \<Rightarrow> js_error + asp_doc list option" where
  "mem_asps_find db user = Inr (Some (find_user_sorted (asps db) user))"

text \<open>
  Modelled from the spec: the Scope Normalizer (4.1) on the validated scope
  list, as the Credential Service stores it (\<^verbatim>\<open>userHandler\<close> is not among the
  sources): duplicates dropped, a list containing \<^verbatim>\<open>*\<close> collapses to \<^verbatim>\<open>*\<close>, no
  scopes at all default to \<^verbatim>\<open>*\<close>.
\<close>

definition normalize :: "string list option \<Rightarrow> string list" where
  "normalize requested =
     (let scopes = remdups (case requested of None \<Rightarrow> [] | Some xs \<Rightarrow> xs)
      in if ''*'' \<in> set scopes \<or> scopes = [] then [''*''] else scopes)"

text \<open>
  Modelled from the spec: \<^verbatim>\<open>userHandler.generateASP\<close>, the Credential Service's
  mint (4.2, 3; not among the sources). It assigns a new id, mints the secret
  (\<open>mint\<close> stands for the generator), persists the ASP for its owner with the
  description, the normalized scopes, the creation time and no last use, and
  returns \<^verbatim>\<open>{id, password}\<close>.
\<close>

definition mem_generateASP ::
  "(objectid \<Rightarrow> string) \<Rightarrow> objectid \<Rightarrow> create_values \<Rightarrow> database
     \<Rightarrow> (js_error + asp_result) \<times> database" where
  "mem_generateASP mint user data db =
     (let new_id = next_id db;
          secret = mint new_id;
          doc = \<lparr>asp_id = new_id, asp_user = user,
                 asp_description = value_description data,
                 asp_scopes = normalize (value_scopes data),
                 asp_used = JNull, asp_authEvent = JNull,
                 asp_created = JDate (now db), asp_secret = secret\<rparr>
      in (Inr \<lparr>result_id = new_id, result_password = secret\<rparr>,
          db\<lparr>asps := asps db @ [doc], next_id := Suc new_id\<rparr>))"

text \<open>
  Modelled from the spec: \<^verbatim>\<open>userHandler.deleteASP\<close>, the Credential Service's
  removal (4.2; not among the sources). It removes the ASP with this id under
  this owner; when there is none it fails with \<^verbatim>\<open>NotFound\<close> and removes nothing.
\<close>

definition mem_deleteASP ::
  "objectid \<Rightarrow> objectid \<Rightarrow> delete_values \<Rightarrow> database \<Rightarrow> js_error option \<times> database" where
  "mem_deleteASP user asp data db =
     (if list_ex (\<lambda>d. asp_id d = asp \<and> asp_user d = user) (asps db)
      then (None, db\<lparr>asps := filter (\<lambda>d. \<not> (asp_id d = asp \<and> asp_user d = user)) (asps db)\<rparr>)
      else (Some \<lparr>message = ''Application Specific Password was not found'',
                  code = Some ''NotFound''\<rparr>, db))"

text \<open>
  The collaborators over the store. The Profile Signer is a parameter, as
  are \<^verbatim>\<open>consts.SCOPES\<close>, the address test and the secret generator.
\<close>

definition mem_env ::
  "string list \<Rightarrow> (string \<Rightarrow> bool) \<Rightarrow> (objectid \<Rightarrow> string) \<Rightarrow> (jsval \<Rightarrow> js_error + string)
     \<Rightarrow> database env" where
  "mem_env SCOPES is_ip mint sign =
     \<lparr>joi_list = list_schema,
      joi_create = create_schema SCOPES is_ip,
      joi_delete = delete_schema is_ip,
      users_findOne = mem_users_findOne,
      asps_find = mem_asps_find,
      generateASP = mem_generateASP mint,
      deleteASP = mem_deleteASP,
      getSignedEmailConfig = sign\<rparr>"

subsection \<open>Reading a response\<close>

text \<open>\<^verbatim>\<open>v.k\<close> on any value, and the \<^verbatim>\<open>results\<close> array of a list response.\<close>

fun js_get :: "jsval \<Rightarrow> string \<Rightarrow> jsval" where
  "js_get (JObject fs) k = get_field fs k"
| "js_get v k = JUndefined"

fun results_of :: "jsval \<Rightarrow> jsval list" where
  "results_of (JObject fs) = (case get_field fs ''results'' of JArray rs \<Rightarrow> rs | _ \<Rightarrow> [])"
| "results_of v = []"

subsection \<open>A server, an account and its requests\<close>

definition example_settings :: settings where
  "example_settings =
     \<lparr>api_mobileconfig = Some
        [(''displayName'', ''WildDuck Mail''),
         (''displayDescription'', ''Install this profile to set up {email}''),
         (''accountDescription'', ''WildDuck ({email})''),
         (''identifier'', ''com.example.wildduck'')],
      imap = \<lparr>port = JNumber 9993, setup_hostname = JString ''imap.example.com'',
               setup_port = JNumber 993, setup_secure = JBool True\<rparr>,
      smtp = \<lparr>port = JNumber 2587, setup_hostname = JString ''smtp.example.com'',
               setup_port = JNumber 587, setup_secure = JBool False\<rparr>,
      certs = JObject [(''key'', JString ''KEY''), (''cert'', JString ''CERT'')]\<rparr>"

abbreviation alice_id :: objectid where
  "alice_id \<equiv> ObjectID ''59fc66a03e54454869460e45''"

abbreviation first_id :: objectid where
  "first_id \<equiv> ObjectID ''5a1d6dd776e56b6d97e5dd48''"

definition alice :: user_doc where
  "alice = \<lparr>username = ''alice'', name = ''Alice'', address = ''alice@example.com''\<rparr>"

definition example_db :: database where
  "example_db =
     \<lparr>users = [(alice_id, alice)], asps = [], next_id = first_id, now = 1511878103520\<rparr>"

definition no_account_db :: database where
  "no_account_db = example_db\<lparr>users := []\<rparr>"

definition signing_fails :: "jsval \<Rightarrow> js_error + string" where
  "signing_fails options = Inl \<lparr>message = ''Could not sign the profile'', code = None\<rparr>"

definition signing_works :: "jsval \<Rightarrow> js_error + string" where
  "signing_works options = Inr ''Man''"

definition example_env :: "(jsval \<Rightarrow> js_error + string) \<Rightarrow> database env" where
  "example_env sign =
     mem_env [''imap'', ''pop3'', ''smtp''] (\<lambda>s. False) (\<lambda>i. ''rflhmllyegblyybd'') sign"

definition create_request :: "jsval \<Rightarrow> jsval \<Rightarrow> jsobject" where
  "create_request scopes generateMobileconfig =
     [(''user'', JString ''59fc66a03e54454869460e45''),
      (''description'', JString ''Thunderbird''),
      (''scopes'', scopes),
      (''generateMobileconfig'', generateMobileconfig)]"


definition list_request :: jsobject where
  "list_request = [(''user'', JString ''59fc66a03e54454869460e45'')]"

definition delete_request :: jsobject where
  "delete_request =
     [(''user'', JString ''59fc66a03e54454869460e45''),
      (''asp'', JString ''5a1d6dd776e56b6d97e5dd48'')]"

text \<open>What validation makes of these requests, and what the Credential Service mints.\<close>

definition validated :: "string list option \<Rightarrow> bool \<Rightarrow> create_values" where
  "validated scopes generateMobileconfig =
     \<lparr>value_user = ''59fc66a03e54454869460e45'', value_description = ''Thunderbird'',
      value_scopes = scopes, value_generateMobileconfig = generateMobileconfig,
      value_sess = None, value_ip = None\<rparr>"

definition validated_delete :: delete_values where
  "validated_delete =
     \<lparr>del_user = ''59fc66a03e54454869460e45'', del_asp = ''5a1d6dd776e56b6d97e5dd48'',
      del_sess = None, del_ip = None\<rparr>"

definition minted :: "objectid \<Rightarrow> asp_result" where
  "minted i = \<lparr>result_id = i, result_password = ''rflhmllyegblyybd''\<rparr>"

definition thunderbird :: "objectid \<Rightarrow> string list \<Rightarrow> asp_doc" where
  "thunderbird i scopes =
     \<lparr>asp_id = i, asp_user = alice_id, asp_description = ''Thunderbird'',
      asp_scopes = scopes, asp_used = JNull, asp_authEvent = JNull,
      asp_created = JDate 1511878103520, asp_secret = ''rflhmllyegblyybd''\<rparr>"

text \<open>
  The store once the first ASP is minted, and a store with three ASPs of the
  account, one of them used, and one ASP of another account, out of order.
\<close>

definition one_asp_db :: database where
  "one_asp_db = example_db\<lparr>asps := [thunderbird first_id [''*'']], next_id := Suc first_id\<rparr>"

definition three_asps_db :: database where
  "three_asps_db =
     example_db
       \<lparr>asps :=
          [thunderbird (Suc (Suc first_id)) [''imap'', ''smtp''],
           (thunderbird (Suc (Suc (Suc first_id))) [''*''])\<lparr>asp_user := Suc alice_id\<rparr>,
           thunderbird first_id [''*''],
           (thunderbird (Suc first_id) [''pop3''])
             \<lparr>asp_used := JDate 1511878200000, asp_authEvent := JObjectID 77\<rparr>],
        next_id := Suc (Suc (Suc (Suc first_id)))\<rparr>"

section \<open>Properties\<close>

subsection \<open>The scope list and the profile check\<close>

lemma create_scopes_star:
  "(''*'' \<in> set (create_scopes val)) = (create_scopes val = [''*''])"
  by (auto simp: create_scopes_def Let_def split: option.splits)

lemma conflict_iff:
  "profile_conflict g (create_scopes val) =
     (g \<and> create_scopes val \<noteq> [''*'']
        \<and> \<not> (''imap'' \<in> set (create_scopes val) \<and> ''smtp'' \<in> set (create_scopes val)))"
  unfolding profile_conflict_def create_scopes_star by blast

lemma post_asps_conflict:
  assumes "joi_create c (presplit params) = Inr val"
    and "profile_conflict (value_generateMobileconfig val) (create_scopes val)"
  shows "post_asps c cfg db params =
           \<lparr>response = error_only ''Profile file requires imap and smtp scopes'',
             store = db, calls = []\<rparr>"
  using assms by (simp add: post_asps_def Let_def)







subsection \<open>The list query and the summaries\<close>

lemma sorted_find_user_sorted: "sorted (map asp_id (find_user_sorted docs user))"
  by (simp add: find_user_sorted_def)

lemma mset_find_user_sorted:
  "mset (find_user_sorted docs user) = mset (filter (\<lambda>d. asp_user d = user) docs)"
  by (simp add: find_user_sorted_def)

lemma find_user_sorted_insertion_order:
  assumes "sorted (map asp_id docs)"
  shows "find_user_sorted docs user = filter (\<lambda>d. asp_user d = user) docs"
proof -
  have "sorted (map asp_id (filter (\<lambda>d. asp_user d = user) docs))"
    using assms by (rule sorted_filter)
  then show ?thesis
    unfolding find_user_sorted_def by (rule sort_key_id_if_sorted)
qed

text \<open>
  The Credential Service, as modelled, gives a new ASP an id above all the
  ids of the collection and adds it last: the collection stays in ascending
  id order, so that id order is creation order.
\<close>

lemma mem_generateASP_id_order:
  assumes "sorted (map asp_id (asps db))"
    and "\<forall>d \<in> set (asps db). asp_id d < next_id db"
    and "mem_generateASP mint user data db = (r, db')"
  shows "sorted (map asp_id (asps db')) \<and> (\<forall>d \<in> set (asps db'). asp_id d < next_id db')"
proof -
  from assms(3) have after: "asps db' = asps db @
      [\<lparr>asp_id = next_id db, asp_user = user, asp_description = value_description data,
        asp_scopes = normalize (value_scopes data), asp_used = JNull, asp_authEvent = JNull,
        asp_created = JDate (now db), asp_secret = mint (next_id db)\<rparr>]"
    and counter: "next_id db' = Suc (next_id db)"
    by (auto simp: mem_generateASP_def Let_def)
  from assms(1,2) have "sorted (map asp_id (asps db'))"
    unfolding after by (auto simp: sorted_append less_imp_le)
  moreover from assms(2) have "\<forall>d \<in> set (asps db'). asp_id d < next_id db'"
    unfolding after counter by (auto simp: less_Suc_eq)
  ultimately show ?thesis
    by simp
qed

lemma keys_asp_summary:
  "keys_of (asp_summary d) = [''id'', ''description'', ''scopes'', ''lastUse'', ''created'']
   \<and> keys_of (js_get (asp_summary d) ''lastUse'') = [''time'', ''event'']"
  by (simp add: asp_summary_def get_field_def)

lemma asp_summary_secret: "asp_summary (d\<lparr>asp_secret := s\<rparr>) = asp_summary d"
  by (simp add: asp_summary_def)

lemma asp_summary_never_used:
  "\<not> truthy (asp_used d) \<Longrightarrow>
     js_get (js_get (asp_summary d) ''lastUse'') ''time'' = JBool False"
  "\<not> truthy (asp_authEvent d) \<Longrightarrow>
     js_get (js_get (asp_summary d) ''lastUse'') ''event'' = JBool False"
  by (simp_all add: asp_summary_def get_field_def js_or_def)

lemma asp_summary_values:
  "asp_summary d =
     JObject
       [(''id'', JObjectID (asp_id d)),
        (''description'', JString (asp_description d)),
        (''scopes'', JArray (map JString (asp_scopes d))),
        (''lastUse'', JObject
           [(''time'', if truthy (asp_used d) then asp_used d else JBool False),
            (''event'', if truthy (asp_authEvent d) then asp_authEvent d else JBool False)]),
        (''created'', asp_created d)]"
  by (simp add: asp_summary_def js_or_def)

lemma get_asps_found:
  assumes "joi_list c params = Inr hex"
    and "users_findOne c db (ObjectID hex) = Inr (Some userData)"
    and "asps_find c db (ObjectID hex) = Inr found"
  shows "get_asps c db params =
           \<lparr>response = JObject
               [(''success'', JBool True),
                (''results'', JArray
                   (map asp_summary (case found of None \<Rightarrow> [] | Some docs \<Rightarrow> docs)))],
             store = db,
             calls = [UsersFindOne (ObjectID hex), AspsFind (ObjectID hex)]\<rparr>"
  using assms by (simp add: get_asps_def Let_def)

lemma get_asps_mem:
  assumes "list_schema params = Inr hex"
    and "map_of (users db) (ObjectID hex) = Some userData"
  shows "get_asps (mem_env SCOPES is_ip mint sign) db params =
           \<lparr>response = JObject
               [(''success'', JBool True),
                (''results'', JArray (map asp_summary (find_user_sorted (asps db) (ObjectID hex))))],
             store = db,
             calls = [UsersFindOne (ObjectID hex), AspsFind (ObjectID hex)]\<rparr>"
  using assms
  by (simp add: get_asps_def mem_env_def mem_users_findOne_def mem_asps_find_def Let_def)

subsection \<open>The requests of the account, evaluated\<close>

lemma validate_star_profile:
  "joi_create (example_env sign) (presplit (create_request (JArray [JString ''*'']) (JBool True)))
     = Inr (validated (Some [''*'']) True)"
  by code_simp

lemma validate_imap_profile:
  "joi_create (example_env sign) (presplit (create_request (JString ''imap'') (JString ''yes'')))
     = Inr (validated (Some [''imap'']) True)"
  by code_simp




lemma list_schema_request: "list_schema list_request = Inr ''59fc66a03e54454869460e45''"
  by code_simp

lemma validate_delete: "joi_delete (example_env sign) delete_request = Inr validated_delete"
  by code_simp



lemma validated_simps:
  "value_user (validated scopes g) = ''59fc66a03e54454869460e45''"
  "value_description (validated scopes g) = ''Thunderbird''"
  "value_scopes (validated scopes g) = scopes"
  "value_generateMobileconfig (validated scopes g) = g"
  by (simp_all add: validated_def)

lemma find_alice: "users_findOne (example_env sign) example_db alice_id = Inr (Some alice)"
  by (simp add: example_env_def mem_env_def mem_users_findOne_def example_db_def)

lemma find_nobody: "users_findOne (example_env sign) no_account_db alice_id = Inr None"
  by (simp add: example_env_def mem_env_def mem_users_findOne_def no_account_db_def)

lemma normalize_examples: "normalize (Some [''*'']) = [''*'']" "normalize None = [''*'']"
  by (simp_all add: normalize_def)

lemma mint_first:
  "generateASP (example_env sign) alice_id (validated scopes g) example_db
     = (Inr (minted first_id),
        example_db\<lparr>asps := [thunderbird first_id (normalize scopes)], next_id := Suc first_id\<rparr>)"
  by (simp add: example_env_def mem_env_def mem_generateASP_def example_db_def Let_def
      validated_def minted_def thunderbird_def)

lemma signer_of_env: "getSignedEmailConfig (example_env sign) = sign"
  by (simp add: example_env_def mem_env_def)

lemma create_star_profile:
  "post_asps (example_env sign) example_settings example_db
     (create_request (JArray [JString ''*'']) (JBool True)) =
   \<lparr>response =
       (case sign (profile_options example_settings ''Thunderbird'' alice (minted first_id)) of
          Inl err \<Rightarrow> error_only (message err)
        | Inr data \<Rightarrow> JObject
            [(''success'', JBool True), (''id'', JObjectID first_id),
             (''password'', JString ''rflhmllyegblyybd''),
             (''mobileconfig'', JString (base64 data))]),
     store = one_asp_db,
     calls = [UsersFindOne alice_id, GenerateASP alice_id (validated (Some [''*'']) True),
              GetSignedEmailConfig
                (profile_options example_settings ''Thunderbird'' alice (minted first_id))]\<rparr>"
  by (simp add: post_asps_def validate_star_profile Let_def validated_simps create_scopes_def
      profile_conflict_def find_alice mint_first signer_of_env normalize_examples minted_def
      one_asp_db_def split: sum.splits)




lemma find_one: "find_user_sorted (asps one_asp_db) alice_id = [thunderbird first_id [''*'']]"
  by (simp add: find_user_sorted_def one_asp_db_def thunderbird_def)

lemma find_three:
  "find_user_sorted (asps three_asps_db) alice_id =
     [thunderbird first_id [''*''],
      (thunderbird (Suc first_id) [''pop3''])
        \<lparr>asp_used := JDate 1511878200000, asp_authEvent := JObjectID 77\<rparr>,
      thunderbird (Suc (Suc first_id)) [''imap'', ''smtp'']]"
  by (simp add: find_user_sorted_def three_asps_db_def thunderbird_def)

lemma alice_in_stores:
  "map_of (users example_db) alice_id = Some alice"
  "map_of (users one_asp_db) alice_id = Some alice"
  "map_of (users three_asps_db) alice_id = Some alice"
  by (simp_all add: example_db_def one_asp_db_def three_asps_db_def)

lemma asps_found_one:
  "asps_find (example_env sign) one_asp_db alice_id = Inr (Some [thunderbird first_id [''*'']])"
  by (simp add: example_env_def mem_env_def mem_asps_find_def find_one)

lemma find_alice_one: "users_findOne (example_env sign) one_asp_db alice_id = Inr (Some alice)"
  by (simp add: example_env_def mem_env_def mem_users_findOne_def alice_in_stores)

lemma joi_list_request:
  "joi_list (example_env sign) list_request = Inr ''59fc66a03e54454869460e45''"
  by (simp add: example_env_def mem_env_def list_schema_request)

lemma delete_missing:
  "deleteASP (example_env sign) alice_id first_id validated_delete example_db =
     (Some \<lparr>message = ''Application Specific Password was not found'',
            code = Some ''NotFound''\<rparr>, example_db)"
  by (simp add: example_env_def mem_env_def mem_deleteASP_def example_db_def)

lemma delete_present:
  "deleteASP (example_env sign) alice_id first_id validated_delete one_asp_db =
     (None, example_db\<lparr>next_id := Suc first_id\<rparr>)"
  by (simp add: example_env_def mem_env_def mem_deleteASP_def example_db_def one_asp_db_def
      thunderbird_def)

lemma del_asps_example:
  "del_asps (example_env sign) db delete_request =
     (case deleteASP (example_env sign) alice_id first_id validated_delete db of
        (Some err, db') \<Rightarrow>
          \<lparr>response = error_only (message err), store = db',
            calls = [DeleteASP alice_id first_id validated_delete]\<rparr>
      | (None, db') \<Rightarrow>
          \<lparr>response = JObject [(''success'', JBool True)], store = db',
            calls = [DeleteASP alice_id first_id validated_delete]\<rparr>)"
proof -
  have "del_user validated_delete = ''59fc66a03e54454869460e45''"
    and "del_asp validated_delete = ''5a1d6dd776e56b6d97e5dd48''"
    by (simp_all add: validated_delete_def)
  then show ?thesis
    by (simp add: del_asps_def validate_delete Let_def)
qed

section \<open>The claims\<close>

subsection \<open>Scopes\<close>





text \<open>
  C2. For every create call that asks for a profile and whose scope list is
  neither \<^verbatim>\<open>['*']\<close> nor contains both \<^verbatim>\<open>imap\<close> and \<^verbatim>\<open>smtp\<close>, the response is the
  error \<^verbatim>\<open>Profile file requires imap and smtp scopes\<close>, the store is as it was
  and no call to \<^verbatim>\<open>generateASP\<close> is made.
\<close>

theorem scope_conflict_before_credential:
  assumes "joi_create c (presplit params) = Inr val"
    and "value_generateMobileconfig val"
    and "create_scopes val \<noteq> [''*'']"
    and "\<not> (''imap'' \<in> set (create_scopes val) \<and> ''smtp'' \<in> set (create_scopes val))"
  shows "response (post_asps c cfg db params)
           = error_only ''Profile file requires imap and smtp scopes''
         \<and> store (post_asps c cfg db params) = db
         \<and> (\<forall>user data. GenerateASP user data \<notin> set (calls (post_asps c cfg db params)))"
proof -
  have "profile_conflict (value_generateMobileconfig val) (create_scopes val)"
    using assms(2-4) by (simp add: conflict_iff)
  from post_asps_conflict [OF assms(1) this, of cfg db] show ?thesis
    by simp
qed

text \<open>The request with the scopes \<^verbatim>\<open>"imap"\<close> and \<^verbatim>\<open>generateMobileconfig: "yes"\<close>.\<close>

theorem scope_conflict_before_credential_witness:
  "joi_create (example_env signing_works)
       (presplit (create_request (JString ''imap'') (JString ''yes'')))
     = Inr (validated (Some [''imap'']) True)
   \<and> create_scopes (validated (Some [''imap'']) True) = [''imap'']
   \<and> response (post_asps (example_env signing_works) example_settings example_db
         (create_request (JString ''imap'') (JString ''yes'')))
       = JObject [(''error'', JString ''Profile file requires imap and smtp scopes'')]
   \<and> store (post_asps (example_env signing_works) example_settings example_db
         (create_request (JString ''imap'') (JString ''yes''))) = example_db
   \<and> (\<forall>user data. GenerateASP user data
         \<notin> set (calls (post_asps (example_env signing_works) example_settings example_db
                         (create_request (JString ''imap'') (JString ''yes'')))))"
proof -
  have scopes: "create_scopes (validated (Some [''imap'']) True) = [''imap'']"
    by (simp add: create_scopes_def validated_def)
  have "value_generateMobileconfig (validated (Some [''imap'']) True)"
    and "create_scopes (validated (Some [''imap'']) True) \<noteq> [''*'']"
    and "\<not> (''imap'' \<in> set (create_scopes (validated (Some [''imap'']) True))
            \<and> ''smtp'' \<in> set (create_scopes (validated (Some [''imap'']) True)))"
    by (simp_all add: scopes validated_simps)
  from scope_conflict_before_credential
         [OF validate_imap_profile this, of signing_works example_settings example_db]
  show ?thesis
    using validate_imap_profile scopes by (simp add: error_only_def)
qed

text \<open>
  C10. The profile check comes before the lookup of the owner: for every
  create request that asks for a profile with a scope list that is neither
  \<^verbatim>\<open>['*']\<close> nor contains both \<^verbatim>\<open>imap\<close> and \<^verbatim>\<open>smtp\<close>, whatever the store holds (so also
  when the owner does not exist), the response is the scope error and not
  \<^verbatim>\<open>UserNotFound\<close>, and no collaborator is called: there is no \<^verbatim>\<open>findOne\<close> on the
  users.
\<close>

theorem scope_conflict_before_lookup:
  assumes "joi_create c (presplit params) = Inr val"
    and "value_generateMobileconfig val"
    and "create_scopes val \<noteq> [''*'']"
    and "\<not> (''imap'' \<in> set (create_scopes val) \<and> ''smtp'' \<in> set (create_scopes val))"
  shows "post_asps c cfg db params =
           \<lparr>response = error_only ''Profile file requires imap and smtp scopes'',
             store = db, calls = []\<rparr>
         \<and> response (post_asps c cfg db params)
             \<noteq> error_code ''This user does not exist'' ''UserNotFound''
         \<and> (\<forall>user. UsersFindOne user \<notin> set (calls (post_asps c cfg db params)))"
proof -
  have "profile_conflict (value_generateMobileconfig val) (create_scopes val)"
    using assms(2-4) by (simp add: conflict_iff)
  from post_asps_conflict [OF assms(1) this, of cfg db] show ?thesis
    by (simp add: error_only_def error_code_def)
qed

text \<open>The same request on a store in which the owner does not exist.\<close>

theorem scope_conflict_before_lookup_witness:
  "users_findOne (example_env signing_works) no_account_db alice_id = Inr None
   \<and> post_asps (example_env signing_works) example_settings no_account_db
         (create_request (JString ''imap'') (JString ''yes'')) =
       \<lparr>response = JObject [(''error'', JString ''Profile file requires imap and smtp scopes'')],
         store = no_account_db, calls = []\<rparr>
   \<and> response (post_asps (example_env signing_works) example_settings no_account_db
         (create_request (JString ''imap'') (JString ''yes'')))
       \<noteq> JObject [(''error'', JString ''This user does not exist''),
                  (''code'', JString ''UserNotFound'')]"
proof -
  have "value_generateMobileconfig (validated (Some [''imap'']) True)"
    and "create_scopes (validated (Some [''imap'']) True) \<noteq> [''*'']"
    and "\<not> (''imap'' \<in> set (create_scopes (validated (Some [''imap'']) True))
            \<and> ''smtp'' \<in> set (create_scopes (validated (Some [''imap'']) True)))"
    by (simp_all add: create_scopes_def validated_def)
  from scope_conflict_before_lookup
         [OF validate_imap_profile this, of signing_works example_settings no_account_db]
  show ?thesis
    using find_nobody by (simp add: error_only_def error_code_def)
qed




subsection \<open>The profile\<close>












subsection \<open>A failing signer\<close>

text \<open>
  C1, as amended. For every create call that asks for a profile and in which
  the Profile Signer fails after the Credential Service has minted the
  credential, the handler makes no further call (nothing is rolled back or
  deleted): the store is the one the Credential Service left, so that a list
  on it shows the new ASP whenever the service has persisted it. The response
  is the object \<^verbatim>\<open>{error: err.message}\<close> with the signer's message and no other
  property; the assigned id is not in it.
\<close>

theorem signing_failure_keeps_credential:
  assumes "joi_create c (presplit params) = Inr val"
    and "value_generateMobileconfig val"
    and "\<not> profile_conflict True (create_scopes val)"
    and "users_findOne c db (ObjectID (value_user val)) = Inr (Some userData)"
    and "generateASP c (ObjectID (value_user val)) val db = (Inr result, db')"
    and "getSignedEmailConfig c
           (profile_options cfg (value_description val) userData result) = Inl err"
    and "joi_list c lparams = Inr (value_user val)"
    and "users_findOne c db' (ObjectID (value_user val)) = Inr (Some userData')"
    and "asps_find c db' (ObjectID (value_user val)) = Inr (Some docs)"
    and "doc \<in> set docs" and "asp_id doc = result_id result"
  shows "post_asps c cfg db params =
           \<lparr>response = error_only (message err), store = db',
             calls = [UsersFindOne (ObjectID (value_user val)),
                      GenerateASP (ObjectID (value_user val)) val,
                      GetSignedEmailConfig
                        (profile_options cfg (value_description val) userData result)]\<rparr>
         \<and> keys_of (response (post_asps c cfg db params)) = [''error'']
         \<and> asp_summary doc
             \<in> set (results_of (response (get_asps c (store (post_asps c cfg db params)) lparams)))
         \<and> js_get (asp_summary doc) ''id'' = JObjectID (result_id result)"
proof -
  have create: "post_asps c cfg db params =
           \<lparr>response = error_only (message err), store = db',
             calls = [UsersFindOne (ObjectID (value_user val)),
                      GenerateASP (ObjectID (value_user val)) val,
                      GetSignedEmailConfig
                        (profile_options cfg (value_description val) userData result)]\<rparr>"
    using assms(1-6) by (simp add: post_asps_def Let_def)
  have "response (get_asps c db' lparams) =
          JObject [(''success'', JBool True), (''results'', JArray (map asp_summary docs))]"
    using assms(7-9) by (simp add: get_asps_def Let_def)
  then have listed: "asp_summary doc \<in> set (results_of (response (get_asps c db' lparams)))"
    using assms(10) by (simp add: get_field_def)
  have "js_get (asp_summary doc) ''id'' = JObjectID (result_id result)"
    using assms(11) by (simp add: asp_summary_def get_field_def)
  with create listed show ?thesis
    by (simp add: error_only_def)
qed

text \<open>The request for a profile with the scopes \<^verbatim>\<open>['*']\<close>, and a signer that fails.\<close>

theorem signing_failure_keeps_credential_witness:
  "post_asps (example_env signing_fails) example_settings example_db
       (create_request (JArray [JString ''*'']) (JBool True)) =
     \<lparr>response = JObject [(''error'', JString ''Could not sign the profile'')],
       store = one_asp_db,
       calls = [UsersFindOne alice_id, GenerateASP alice_id (validated (Some [''*'']) True),
                GetSignedEmailConfig
                  (profile_options example_settings ''Thunderbird'' alice (minted first_id))]\<rparr>
   \<and> asp_summary (thunderbird first_id [''*''])
       \<in> set (results_of (response (get_asps (example_env signing_fails)
            (store (post_asps (example_env signing_fails) example_settings example_db
                      (create_request (JArray [JString ''*'']) (JBool True))))
            list_request)))
   \<and> js_get (asp_summary (thunderbird first_id [''*''])) ''id'' = JObjectID first_id"
proof -
  let ?val = "validated (Some [''*'']) True"
  have user: "ObjectID (value_user ?val) = alice_id"
    and description: "value_description ?val = ''Thunderbird''"
    by (simp_all add: validated_simps)
  have asks: "value_generateMobileconfig ?val"
    and allowed: "\<not> profile_conflict True (create_scopes ?val)"
    by (simp_all add: validated_simps create_scopes_def profile_conflict_def)
  have owner: "users_findOne (example_env signing_fails) example_db (ObjectID (value_user ?val))
                 = Inr (Some alice)"
    unfolding user by (rule find_alice)
  have mint: "generateASP (example_env signing_fails) (ObjectID (value_user ?val)) ?val example_db
                = (Inr (minted first_id), one_asp_db)"
    unfolding user by (simp add: mint_first normalize_examples one_asp_db_def)
  have sign: "getSignedEmailConfig (example_env signing_fails)
                (profile_options example_settings (value_description ?val) alice (minted first_id))
              = Inl \<lparr>message = ''Could not sign the profile'', code = None\<rparr>"
    by (simp add: signer_of_env signing_fails_def)
  have list: "joi_list (example_env signing_fails) list_request = Inr (value_user ?val)"
    by (simp add: example_env_def mem_env_def list_schema_request validated_simps)
  have owner': "users_findOne (example_env signing_fails) one_asp_db (ObjectID (value_user ?val))
                  = Inr (Some alice)"
    unfolding user
    by (simp add: example_env_def mem_env_def mem_users_findOne_def alice_in_stores)
  have found: "asps_find (example_env signing_fails) one_asp_db (ObjectID (value_user ?val))
                 = Inr (Some [thunderbird first_id [''*'']])"
    unfolding user
    by (simp add: example_env_def mem_env_def mem_asps_find_def find_one)
  have doc: "thunderbird first_id [''*''] \<in> set [thunderbird first_id [''*'']]"
    and same: "asp_id (thunderbird first_id [''*'']) = result_id (minted first_id)"
    by (simp_all add: thunderbird_def minted_def)
  from signing_failure_keeps_credential
         [OF validate_star_profile asks allowed owner mint sign list owner' found doc same]
  have run: "post_asps (example_env signing_fails) example_settings example_db
               (create_request (JArray [JString ''*'']) (JBool True)) =
             \<lparr>response = error_only
                  (message \<lparr>message = ''Could not sign the profile'', code = None\<rparr>),
               store = one_asp_db,
               calls = [UsersFindOne (ObjectID (value_user ?val)),
                        GenerateASP (ObjectID (value_user ?val)) ?val,
                        GetSignedEmailConfig
                          (profile_options example_settings (value_description ?val) alice
                             (minted first_id))]\<rparr>"
    and listed: "asp_summary (thunderbird first_id [''*''])
       \<in> set (results_of (response (get_asps (example_env signing_fails)
            (store (post_asps (example_env signing_fails) example_settings example_db
                      (create_request (JArray [JString ''*'']) (JBool True))))
            list_request)))"
    and ident: "js_get (asp_summary (thunderbird first_id [''*''])) ''id''
                  = JObjectID (result_id (minted first_id))"
    by blast+
  from run have "post_asps (example_env signing_fails) example_settings example_db
       (create_request (JArray [JString ''*'']) (JBool True)) =
     \<lparr>response = JObject [(''error'', JString ''Could not sign the profile'')],
       store = one_asp_db,
       calls = [UsersFindOne alice_id, GenerateASP alice_id (validated (Some [''*'']) True),
                GetSignedEmailConfig
                  (profile_options example_settings ''Thunderbird'' alice (minted first_id))]\<rparr>"
    by (simp add: user description error_only_def)
  moreover from ident have "js_get (asp_summary (thunderbird first_id [''*''])) ''id''
                              = JObjectID first_id"
    by (simp add: minted_def)
  ultimately show ?thesis
    using listed by blast
qed

text \<open>
  C1 as stated fails: the signer fails after the credential \<open>first_id\<close> is in
  the store, and the response has the error message and no \<^verbatim>\<open>id\<close>.
\<close>

theorem signing_failure_response_has_no_id:
  "response (post_asps (example_env signing_fails) example_settings example_db
       (create_request (JArray [JString ''*'']) (JBool True)))
     = JObject [(''error'', JString ''Could not sign the profile'')]
   \<and> js_get (response (post_asps (example_env signing_fails) example_settings example_db
                 (create_request (JArray [JString ''*'']) (JBool True)))) ''id'' = JUndefined
   \<and> map asp_id (asps (store (post_asps (example_env signing_fails) example_settings example_db
                 (create_request (JArray [JString ''*'']) (JBool True))))) = [first_id]"
  by (simp add: create_star_profile signing_fails_def error_only_def get_field_def
      one_asp_db_def thunderbird_def)

subsection \<open>List and delete\<close>

text \<open>
  C7. For every account of the store, the list handler answers with success
  and the summaries of exactly the ASPs of that account, in ascending order
  of their ids, which is their insertion order when the collection is in
  ascending id order. Each summary has the properties \<^verbatim>\<open>id\<close>, \<^verbatim>\<open>description\<close>,
  \<^verbatim>\<open>scopes\<close>, \<^verbatim>\<open>lastUse\<close> (with \<^verbatim>\<open>time\<close> and \<^verbatim>\<open>event\<close>) and \<^verbatim>\<open>created\<close> and no other;
  their values are the document's id, description, scopes and creation
  time, and its last use and event, each \<^verbatim>\<open>false\<close> when the document has no such
  value. A summary does not depend on the secret. An account without ASPs
  gets success with no results. The store is not changed. With any
  collaborators, the results are these summaries of the documents the query
  returned, in the query's order.
\<close>

theorem list_returns_account_asps_by_id:
  assumes "list_schema params = Inr hex"
    and "map_of (users db) (ObjectID hex) = Some userData"
  shows "response (get_asps (mem_env SCOPES is_ip mint sign) db params) =
           JObject
             [(''success'', JBool True),
              (''results'', JArray (map asp_summary (find_user_sorted (asps db) (ObjectID hex))))]
       \<and> store (get_asps (mem_env SCOPES is_ip mint sign) db params) = db
       \<and> sorted (map asp_id (find_user_sorted (asps db) (ObjectID hex)))
       \<and> mset (find_user_sorted (asps db) (ObjectID hex))
           = mset (filter (\<lambda>d. asp_user d = ObjectID hex) (asps db))
       \<and> (sorted (map asp_id (asps db)) \<longrightarrow>
             find_user_sorted (asps db) (ObjectID hex)
               = filter (\<lambda>d. asp_user d = ObjectID hex) (asps db))
       \<and> (\<forall>r \<in> set (results_of (response (get_asps (mem_env SCOPES is_ip mint sign) db params))).
             keys_of r = [''id'', ''description'', ''scopes'', ''lastUse'', ''created'']
             \<and> keys_of (js_get r ''lastUse'') = [''time'', ''event''])
       \<and> (\<forall>d s. asp_summary (d\<lparr>asp_secret := s\<rparr>) = asp_summary d)
       \<and> (\<forall>d. \<not> truthy (asp_used d) \<longrightarrow>
             js_get (js_get (asp_summary d) ''lastUse'') ''time'' = JBool False)
       \<and> (\<forall>d. \<not> truthy (asp_authEvent d) \<longrightarrow>
             js_get (js_get (asp_summary d) ''lastUse'') ''event'' = JBool False)
       \<and> (filter (\<lambda>d. asp_user d = ObjectID hex) (asps db) = [] \<longrightarrow>
             response (get_asps (mem_env SCOPES is_ip mint sign) db params) =
               JObject [(''success'', JBool True), (''results'', JArray [])])
       \<and> results_of (response (get_asps (mem_env SCOPES is_ip mint sign) db params)) =
           map (\<lambda>d. JObject
                  [(''id'', JObjectID (asp_id d)),
                   (''description'', JString (asp_description d)),
                   (''scopes'', JArray (map JString (asp_scopes d))),
                   (''lastUse'', JObject
                      [(''time'', if truthy (asp_used d) then asp_used d else JBool False),
                       (''event'',
                        if truthy (asp_authEvent d) then asp_authEvent d else JBool False)]),
                   (''created'', asp_created d)])
             (find_user_sorted (asps db) (ObjectID hex))
       \<and> (\<forall>d. js_get (asp_summary d) ''id'' = JObjectID (asp_id d)
              \<and> js_get (asp_summary d) ''description'' = JString (asp_description d)
              \<and> js_get (asp_summary d) ''scopes'' = JArray (map JString (asp_scopes d))
              \<and> js_get (asp_summary d) ''created'' = asp_created d
              \<and> (truthy (asp_used d) \<longrightarrow>
                    js_get (js_get (asp_summary d) ''lastUse'') ''time'' = asp_used d)
              \<and> (truthy (asp_authEvent d) \<longrightarrow>
                    js_get (js_get (asp_summary d) ''lastUse'') ''event'' = asp_authEvent d))
       \<and> (joi_list c params' = Inr hex' \<longrightarrow>
           users_findOne c db' (ObjectID hex') = Inr (Some userData') \<longrightarrow>
           asps_find c db' (ObjectID hex') = Inr found \<longrightarrow>
             store (get_asps c db' params') = db'
             \<and> results_of (response (get_asps c db' params')) =
                 map (\<lambda>d. JObject
                        [(''id'', JObjectID (asp_id d)),
                         (''description'', JString (asp_description d)),
                         (''scopes'', JArray (map JString (asp_scopes d))),
                         (''lastUse'', JObject
                            [(''time'', if truthy (asp_used d) then asp_used d else JBool False),
                             (''event'',
                              if truthy (asp_authEvent d) then asp_authEvent d
                              else JBool False)]),
                         (''created'', asp_created d)])
                   (case found of None \<Rightarrow> [] | Some docs \<Rightarrow> docs))"
proof -
  note out = get_asps_mem [OF assms, of SCOPES is_ip mint sign]
  have keys: "\<forall>r \<in> set (results_of (response (get_asps (mem_env SCOPES is_ip mint sign) db params))).
             keys_of r = [''id'', ''description'', ''scopes'', ''lastUse'', ''created'']
             \<and> keys_of (js_get r ''lastUse'') = [''time'', ''event'']"
    unfolding out using keys_asp_summary by (auto simp: get_field_def)
  have empty: "filter (\<lambda>d. asp_user d = ObjectID hex) (asps db) = [] \<longrightarrow>
             response (get_asps (mem_env SCOPES is_ip mint sign) db params) =
               JObject [(''success'', JBool True), (''results'', JArray [])]"
    unfolding out by (simp add: find_user_sorted_def)
  have results: "results_of (response (get_asps (mem_env SCOPES is_ip mint sign) db params)) =
           map (\<lambda>d. JObject
                  [(''id'', JObjectID (asp_id d)),
                   (''description'', JString (asp_description d)),
                   (''scopes'', JArray (map JString (asp_scopes d))),
                   (''lastUse'', JObject
                      [(''time'', if truthy (asp_used d) then asp_used d else JBool False),
                       (''event'',
                        if truthy (asp_authEvent d) then asp_authEvent d else JBool False)]),
                   (''created'', asp_created d)])
             (find_user_sorted (asps db) (ObjectID hex))"
    unfolding out by (simp add: get_field_def asp_summary_values)
  have fields: "\<forall>d. js_get (asp_summary d) ''id'' = JObjectID (asp_id d)
              \<and> js_get (asp_summary d) ''description'' = JString (asp_description d)
              \<and> js_get (asp_summary d) ''scopes'' = JArray (map JString (asp_scopes d))
              \<and> js_get (asp_summary d) ''created'' = asp_created d
              \<and> (truthy (asp_used d) \<longrightarrow>
                    js_get (js_get (asp_summary d) ''lastUse'') ''time'' = asp_used d)
              \<and> (truthy (asp_authEvent d) \<longrightarrow>
                    js_get (js_get (asp_summary d) ''lastUse'') ''event'' = asp_authEvent d)"
    by (simp add: asp_summary_values get_field_def)
  have general: "joi_list c params' = Inr hex' \<longrightarrow>
           users_findOne c db' (ObjectID hex') = Inr (Some userData') \<longrightarrow>
           asps_find c db' (ObjectID hex') = Inr found \<longrightarrow>
             store (get_asps c db' params') = db'
             \<and> results_of (response (get_asps c db' params')) =
                 map (\<lambda>d. JObject
                        [(''id'', JObjectID (asp_id d)),
                         (''description'', JString (asp_description d)),
                         (''scopes'', JArray (map JString (asp_scopes d))),
                         (''lastUse'', JObject
                            [(''time'', if truthy (asp_used d) then asp_used d else JBool False),
                             (''event'',
                              if truthy (asp_authEvent d) then asp_authEvent d
                              else JBool False)]),
                         (''created'', asp_created d)])
                   (case found of None \<Rightarrow> [] | Some docs \<Rightarrow> docs)"
    by (simp add: get_asps_found get_field_def asp_summary_values)
  have rest: "response (get_asps (mem_env SCOPES is_ip mint sign) db params) =
           JObject
             [(''success'', JBool True),
              (''results'', JArray (map asp_summary (find_user_sorted (asps db) (ObjectID hex))))]
       \<and> store (get_asps (mem_env SCOPES is_ip mint sign) db params) = db
       \<and> sorted (map asp_id (find_user_sorted (asps db) (ObjectID hex)))
       \<and> mset (find_user_sorted (asps db) (ObjectID hex))
           = mset (filter (\<lambda>d. asp_user d = ObjectID hex) (asps db))
       \<and> (sorted (map asp_id (asps db)) \<longrightarrow>
             find_user_sorted (asps db) (ObjectID hex)
               = filter (\<lambda>d. asp_user d = ObjectID hex) (asps db))"
    using sorted_find_user_sorted mset_find_user_sorted find_user_sorted_insertion_order
    by (simp add: out)
  have used: "(\<forall>d s. asp_summary (d\<lparr>asp_secret := s\<rparr>) = asp_summary d)
       \<and> (\<forall>d. \<not> truthy (asp_used d) \<longrightarrow>
             js_get (js_get (asp_summary d) ''lastUse'') ''time'' = JBool False)
       \<and> (\<forall>d. \<not> truthy (asp_authEvent d) \<longrightarrow>
             js_get (js_get (asp_summary d) ''lastUse'') ''event'' = JBool False)"
    using asp_summary_secret asp_summary_never_used by simp
  from rest keys used empty results fields general show ?thesis
    by (intro conjI) (erule conjE | assumption)+
qed


text \<open>
  The account with three ASPs, kept out of order among another account's; the
  account before its first ASP; and the account with one ASP.
\<close>

theorem list_returns_account_asps_by_id_witness:
  "response (get_asps (example_env signing_works) three_asps_db list_request) =
     JObject
       [(''success'', JBool True),
        (''results'', JArray
           [JObject
              [(''id'', JObjectID first_id), (''description'', JString ''Thunderbird''),
               (''scopes'', JArray [JString ''*'']),
               (''lastUse'', JObject [(''time'', JBool False), (''event'', JBool False)]),
               (''created'', JDate 1511878103520)],
            JObject
              [(''id'', JObjectID (Suc first_id)), (''description'', JString ''Thunderbird''),
               (''scopes'', JArray [JString ''pop3'']),
               (''lastUse'', JObject
                  [(''time'', JDate 1511878200000), (''event'', JObjectID 77)]),
               (''created'', JDate 1511878103520)],
            JObject
              [(''id'', JObjectID (Suc (Suc first_id))), (''description'', JString ''Thunderbird''),
               (''scopes'', JArray [JString ''imap'', JString ''smtp'']),
               (''lastUse'', JObject [(''time'', JBool False), (''event'', JBool False)]),
               (''created'', JDate 1511878103520)]])]
   \<and> store (get_asps (example_env signing_works) three_asps_db list_request) = three_asps_db
   \<and> response (get_asps (example_env signing_works) example_db list_request) =
       JObject [(''success'', JBool True), (''results'', JArray [])]
   \<and> results_of (response (get_asps (example_env signing_works) one_asp_db list_request)) =
       [JObject
          [(''id'', JObjectID first_id), (''description'', JString ''Thunderbird''),
           (''scopes'', JArray [JString ''*'']),
           (''lastUse'', JObject [(''time'', JBool False), (''event'', JBool False)]),
           (''created'', JDate 1511878103520)]]"
proof -
  have none: "filter (\<lambda>d. asp_user d = alice_id) (asps example_db) = []"
    by (simp add: example_db_def)
  note three = list_returns_account_asps_by_id
         [where SCOPES = "[''imap'', ''pop3'', ''smtp'']" and is_ip = "\<lambda>s. False"
            and mint = "\<lambda>i. ''rflhmllyegblyybd''" and sign = signing_works
            and c = "example_env signing_works" and params' = list_request
            and hex' = "''59fc66a03e54454869460e45''" and db' = one_asp_db
            and userData' = alice and found = "Some [thunderbird first_id [''*'']]",
          OF list_schema_request alice_in_stores(3)]
  note empty = list_returns_account_asps_by_id
         [where SCOPES = "[''imap'', ''pop3'', ''smtp'']" and is_ip = "\<lambda>s. False"
            and mint = "\<lambda>i. ''rflhmllyegblyybd''" and sign = signing_works
            and c = "example_env signing_works" and params' = list_request
            and hex' = "''59fc66a03e54454869460e45''" and db' = one_asp_db
            and userData' = alice and found = "Some [thunderbird first_id [''*'']]",
          OF list_schema_request alice_in_stores(1)]
  from three have listed:
    "response (get_asps (example_env signing_works) three_asps_db list_request) =
       JObject [(''success'', JBool True),
                (''results'', JArray (map asp_summary (find_user_sorted (asps three_asps_db) alice_id)))]"
    and unchanged: "store (get_asps (example_env signing_works) three_asps_db list_request)
                      = three_asps_db"
    and one: "results_of (response (get_asps (example_env signing_works) one_asp_db list_request)) =
       [JObject
          [(''id'', JObjectID first_id), (''description'', JString ''Thunderbird''),
           (''scopes'', JArray [JString ''*'']),
           (''lastUse'', JObject [(''time'', JBool False), (''event'', JBool False)]),
           (''created'', JDate 1511878103520)]]"
    unfolding example_env_def [symmetric]
    by (simp_all add: joi_list_request find_alice_one asps_found_one thunderbird_def)
  from empty none have no_asps:
    "response (get_asps (example_env signing_works) example_db list_request) =
       JObject [(''success'', JBool True), (''results'', JArray [])]"
    unfolding example_env_def [symmetric] by blast
  from listed have "response (get_asps (example_env signing_works) three_asps_db list_request) =
     JObject
       [(''success'', JBool True),
        (''results'', JArray
           [JObject
              [(''id'', JObjectID first_id), (''description'', JString ''Thunderbird''),
               (''scopes'', JArray [JString ''*'']),
               (''lastUse'', JObject [(''time'', JBool False), (''event'', JBool False)]),
               (''created'', JDate 1511878103520)],
            JObject
              [(''id'', JObjectID (Suc first_id)), (''description'', JString ''Thunderbird''),
               (''scopes'', JArray [JString ''pop3'']),
               (''lastUse'', JObject
                  [(''time'', JDate 1511878200000), (''event'', JObjectID 77)]),
               (''created'', JDate 1511878103520)],
            JObject
              [(''id'', JObjectID (Suc (Suc first_id))), (''description'', JString ''Thunderbird''),
               (''scopes'', JArray [JString ''imap'', JString ''smtp'']),
               (''lastUse'', JObject [(''time'', JBool False), (''event'', JBool False)]),
               (''created'', JDate 1511878103520)]])]"
    by (simp add: find_three asp_summary_values thunderbird_def)
  with unchanged no_asps one show ?thesis
    by blast
qed


text \<open>
  C8, as amended. For every delete call the response is \<^verbatim>\<open>{success: true}\<close>, or
  an error message with the code \<^verbatim>\<open>InputValidationError\<close> when validation
  refuses the request, or, when the Credential Service reports an error (so
  also when there is no ASP with this id under this owner), the object
  \<^verbatim>\<open>{error: err.message}\<close> with the message alone: it has no \<^verbatim>\<open>code\<close>, whatever
  code the error carries.
\<close>

theorem delete_response_shapes:
  "(\<exists>error. joi_delete c params = Inl error
       \<and> response (del_asps c db params)
           = error_code (message error) ''InputValidationError'')
   \<or> (\<exists>val err db'. joi_delete c params = Inr val
       \<and> deleteASP c (ObjectID (del_user val)) (ObjectID (del_asp val)) val db = (Some err, db')
       \<and> response (del_asps c db params) = error_only (message err)
       \<and> keys_of (response (del_asps c db params)) = [''error''])
   \<or> (\<exists>val db'. joi_delete c params = Inr val
       \<and> deleteASP c (ObjectID (del_user val)) (ObjectID (del_asp val)) val db = (None, db')
       \<and> response (del_asps c db params) = JObject [(''success'', JBool True)])"
proof (cases "joi_delete c params")
  case (Inl error)
  then show ?thesis
    by (simp add: del_asps_def)
next
  case (Inr val)
  obtain outcome db' where
    deleted: "deleteASP c (ObjectID (del_user val)) (ObjectID (del_asp val)) val db = (outcome, db')"
    by (cases "deleteASP c (ObjectID (del_user val)) (ObjectID (del_asp val)) val db")
  show ?thesis
  proof (cases outcome)
    case None
    with Inr deleted show ?thesis
      by (simp add: del_asps_def Let_def)
  next
    case (Some err)
    with Inr deleted show ?thesis
      by (simp add: del_asps_def Let_def error_only_def)
  qed
qed

text \<open>
  The delete of the first ASP where it exists, where it does not, and a
  request without the \<^verbatim>\<open>asp\<close> parameter.
\<close>

theorem delete_response_shapes_witness:
  "response (del_asps (example_env signing_works) one_asp_db delete_request)
     = JObject [(''success'', JBool True)]
   \<and> asps (store (del_asps (example_env signing_works) one_asp_db delete_request)) = []
   \<and> response (del_asps (example_env signing_works) example_db delete_request)
       = JObject [(''error'', JString ''Application Specific Password was not found'')]
   \<and> response (del_asps (example_env signing_works) example_db list_request)
       = JObject [(''error'', JString ''ValidationError''),
                  (''code'', JString ''InputValidationError'')]"
proof -
  let ?env = "example_env signing_works"
  have invalid: "joi_delete ?env list_request = Inl validation_error"
    by code_simp
  have ids: "ObjectID (del_user validated_delete) = alice_id"
    "ObjectID (del_asp validated_delete) = first_id"
    by (simp_all add: validated_delete_def)
  from delete_response_shapes [of ?env delete_request one_asp_db]
  have present: "response (del_asps ?env one_asp_db delete_request)
                   = JObject [(''success'', JBool True)]"
    by (auto simp: validate_delete ids delete_present)
  from delete_response_shapes [of ?env delete_request example_db]
  have missing: "response (del_asps ?env example_db delete_request)
                   = JObject [(''error'', JString ''Application Specific Password was not found'')]"
    by (auto simp: validate_delete ids delete_missing error_only_def)
  from delete_response_shapes [of ?env list_request example_db]
  have refused: "response (del_asps ?env example_db list_request)
                   = JObject [(''error'', JString ''ValidationError''),
                              (''code'', JString ''InputValidationError'')]"
    by (auto simp: invalid error_code_def validation_error_def)
  have "asps (store (del_asps ?env one_asp_db delete_request)) = []"
    by (simp add: del_asps_example delete_present example_db_def)
  with present missing refused show ?thesis
    by blast
qed

text \<open>
  C8 as stated fails: no ASP with the id exists under the owner, the
  Credential Service reports \<^verbatim>\<open>NotFound\<close>, and the response has the message and
  no \<^verbatim>\<open>code\<close>.
\<close>

theorem delete_error_has_no_code:
  "deleteASP (example_env signing_works) alice_id first_id validated_delete example_db
     = (Some \<lparr>message = ''Application Specific Password was not found'',
              code = Some ''NotFound''\<rparr>, example_db)
   \<and> response (del_asps (example_env signing_works) example_db delete_request)
       = JObject [(''error'', JString ''Application Specific Password was not found'')]
   \<and> js_get (response (del_asps (example_env signing_works) example_db delete_request)) ''code''
       = JUndefined"
  by (simp add: del_asps_example delete_missing error_only_def get_field_def)

end
